theory Spec2Isabelle
  imports Complex_Main "HOL-Library.Sublist"
begin

section \<open>JavaScript strings\<close>

text \<open>
  A string of the program is modelled as a \<^typ>\<open>string\<close>: a list of code units below 256
  (the Latin-1 block of Unicode, which contains ASCII). On that block the methods used by
  \<^verbatim>\<open>App.tsx\<close> stay inside the block, so the model is closed under them:
  \<^item> the white space of \<^verbatim>\<open>trim\<close> and of the regular expression \<^verbatim>\<open>\s\<close> is
    TAB, LF, VT, FF, CR, SPACE and NO-BREAK SPACE (U+00A0);
  \<^item> \<^verbatim>\<open>toLowerCase\<close> adds 32 to \<open>A..Z\<close> and to U+00C0..U+00DE except U+00D7,
    and leaves every other code unit alone.
\<close>

definition isSpace :: "char \<Rightarrow> bool" where
  "isSpace c = (c \<in> set [CHR 0x09, CHR 0x0A, CHR 0x0B, CHR 0x0C, CHR 0x0D, CHR 0x20, CHR 0xA0])"

definition isUpper :: "char \<Rightarrow> bool" where
  "isUpper c =
     (let n = (of_char c :: nat)
      in (65 \<le> n \<and> n \<le> 90) \<or> (192 \<le> n \<and> n \<le> 222 \<and> n \<noteq> 215))"

definition toLowerChar :: "char \<Rightarrow> char" where
  "toLowerChar c = (if isUpper c then char_of ((of_char c :: nat) + 32) else c)"

definition toLowerCase :: "string \<Rightarrow> string" where
  "toLowerCase s = map toLowerChar s"

definition trim :: "string \<Rightarrow> string" where
  "trim s = rev (dropWhile isSpace (rev (dropWhile isSpace s)))"

text \<open>\<^verbatim>\<open>s.includes(t)\<close>: \<open>t\<close> occurs in \<open>s\<close> as a contiguous run.\<close>

fun includes_str :: "string \<Rightarrow> string \<Rightarrow> bool" where
  "includes_str [] t = (t = [])"
| "includes_str (c # cs) t = (prefix t (c # cs) \<or> includes_str cs t)"

text \<open>
  \<^verbatim>\<open>s.split(',')\<close>: the pieces between the separators, empty pieces included; the
  empty string gives one empty piece. \<open>cur\<close> is the piece being read, reversed.
\<close>

fun splitOn :: "char \<Rightarrow> string \<Rightarrow> string \<Rightarrow> string list" where
  "splitOn sep cur [] = [rev cur]"
| "splitOn sep cur (c # cs) =
     (if c = sep then rev cur # splitOn sep [] cs else splitOn sep (c # cur) cs)"

definition split :: "string \<Rightarrow> char \<Rightarrow> string list" where
  "split s sep = splitOn sep [] s"

text \<open>
  \<^verbatim>\<open>s.split(/\s+/)\<close>: the separator is a maximal run of white space; a run at the start
  or at the end leaves an empty piece there.
\<close>

function splitWs :: "string \<Rightarrow> string \<Rightarrow> string list" where
  "splitWs cur [] = [rev cur]"
| "splitWs cur (c # cs) =
     (if isSpace c then rev cur # splitWs [] (dropWhile isSpace cs)
      else splitWs (c # cur) cs)"
  by pat_completeness auto
termination
proof (relation "measure (\<lambda>(cur, s). length s)")
  show "wf (measure (\<lambda>(cur, s). length s))" by simp
next
  fix cur :: string and c :: char and cs :: string
  assume "isSpace c"
  have "length (dropWhile isSpace cs) \<le> length cs" by (rule length_dropWhile_le)
  then show "(([], dropWhile isSpace cs), (cur, c # cs)) \<in> measure (\<lambda>(cur, s). length s)"
    by simp
next
  fix cur :: string and c :: char and cs :: string
  show "((c # cur, cs), (cur, c # cs)) \<in> measure (\<lambda>(cur, s). length s)" by simp
qed

section \<open>Meal records (TheMealDB)\<close>

record MealSummary =
  idMeal :: string
  strMeal :: string
  strMealThumb :: string

text \<open>
  \<^verbatim>\<open>MealDetails\<close> extends \<^verbatim>\<open>MealSummary\<close>. Its dynamic keys \<^verbatim>\<open>strIngredient1..20\<close> and
  \<^verbatim>\<open>strMeasure1..20\<close> are two maps from the slot number to the field's value; a key that
  is missing or \<^verbatim>\<open>null\<close> is \<open>None\<close>. The nullable fields are options.
\<close>

record MealDetails = MealSummary +
  strCategory :: "string option"
  strArea :: "string option"
  strTags :: "string option"
  strInstructions :: "string option"
  strIngredient :: "nat \<rightharpoonup> string"
  strMeasure :: "nat \<rightharpoonup> string"

record IngredientLine =
  ingredient :: string
  measure_str :: string

text \<open>\<^verbatim>\<open>x ?? ''\<close> on a nullable string.\<close>

definition orEmpty :: "string option \<Rightarrow> string" where
  "orEmpty x = (case x of None \<Rightarrow> [] | Some s \<Rightarrow> s)"

section \<open>Ingredient extractor\<close>

text \<open>
  \<^verbatim>\<open>getIngredients\<close>: the \<^verbatim>\<open>for (let i = 1; i <= 20; i++)\<close> loop, with the loop counter
  and the array \<^verbatim>\<open>items\<close> as arguments. \<^verbatim>\<open>ing && String(ing).trim()\<close> holds when the
  field is a non-empty string that is non-empty after trimming.
\<close>

function getIngredients_loop :: "MealDetails \<Rightarrow> nat \<Rightarrow> IngredientLine list \<Rightarrow> IngredientLine list" where
  "getIngredients_loop m i items =
     (if i \<le> 20 then
        (let ing = strIngredient m i; meas = strMeasure m i
         in getIngredients_loop m (Suc i)
              (case ing of
                 None \<Rightarrow> items
               | Some s \<Rightarrow>
                   if s \<noteq> [] \<and> trim s \<noteq> []
                   then items @ [\<lparr>ingredient = trim s, measure_str = trim (orEmpty meas)\<rparr>]
                   else items))
      else items)"
  by pat_completeness auto
termination
  by (relation "measure (\<lambda>(m, i, items). 21 - i)") auto

declare getIngredients_loop.simps [simp del]

definition getIngredients :: "MealDetails \<Rightarrow> IngredientLine list" where
  "getIngredients m = getIngredients_loop m 1 []"

section \<open>Heuristic estimator\<close>

text \<open>
  \<^verbatim>\<open>Math.round\<close> rounds to the nearest integer, a tie towards plus infinity. The
  argument \<^verbatim>\<open>words * 0.25 + ingredientsCount * 2\<close> is a multiple of a quarter far below
  \<open>2 ^ 53\<close>, so the double-precision arithmetic of the program is exact and the value is
  the real number written here.
\<close>

definition mathRound :: "real \<Rightarrow> int" where
  "mathRound x = \<lfloor>x + 1 / 2\<rfloor>"

definition wordCount :: "string \<Rightarrow> nat" where
  "wordCount instr = length (filter (\<lambda>t. t \<noteq> []) (splitWs [] instr))"

definition estimateMinutes :: "MealDetails \<Rightarrow> int" where
  "estimateMinutes m =
     (let instr = trim (orEmpty (strInstructions m));
          words = wordCount instr;
          ingredientsCount = length (getIngredients m);
          est = mathRound (real words * 0.25 + real ingredientsCount * 2)
      in max 5 (min est 180))"

section \<open>Predicate filters\<close>

datatype Diet = DietNone | Vegetarian | Vegan | GlutenFree

datatype TimeChoice = TimeAny | Under15 | Under30 | Under45 | SixtyPlus

definition gluteny :: "string list" where
  "gluteny = [''flour'', ''bread'', ''pasta'', ''noodles'', ''wheat'', ''barley'', ''bulgur'', ''semolina'']"

definition matchesDiet :: "MealDetails \<Rightarrow> Diet \<Rightarrow> bool" where
  "matchesDiet m diet =
     (if diet = DietNone then True
      else
        let tags = toLowerCase (orEmpty (strTags m));
            category = toLowerCase (orEmpty (strCategory m));
            ings = map (\<lambda>i. toLowerCase (ingredient i)) (getIngredients m)
        in if diet = Vegetarian then includes_str tags ''vegetarian'' \<or> category = ''vegetarian''
           else if diet = Vegan then includes_str tags ''vegan'' \<or> category = ''vegan''
           else if diet = GlutenFree
             then \<not> list_ex (\<lambda>i. list_ex (\<lambda>g. includes_str i g) gluteny) ings
           else True)"

text \<open>
  The mood table. The mood select offers \<^verbatim>\<open>Any\<close> and the keys of \<^verbatim>\<open>MOOD_MAP\<close>, so a
  mood is \<open>MoodAny\<close> or one of the four keys; an optional field of an entry that is not
  written in the table is \<open>None\<close> (\<^verbatim>\<open>undefined\<close> in the program).
\<close>

datatype MoodKey = Comforting | Healthy | Adventurous | Quick

datatype Mood = MoodAny | MoodOf MoodKey

record MoodConf =
  categories :: "string list option"
  tagsContains :: "string list option"

fun MOOD_MAP :: "MoodKey \<Rightarrow> MoodConf" where
  "MOOD_MAP Comforting =
     \<lparr>categories = Some [''Beef'', ''Pasta'', ''Pork'', ''Chicken''], tagsContains = None\<rparr>"
| "MOOD_MAP Healthy =
     \<lparr>categories = Some [''Vegetarian'', ''Vegan'', ''Salad''],
      tagsContains = Some [''Low Fat'', ''Healthy'']\<rparr>"
| "MOOD_MAP Adventurous =
     \<lparr>categories = Some [''Seafood'', ''Lamb'', ''Goat''], tagsContains = Some [''Spicy'']\<rparr>"
| "MOOD_MAP Quick = \<lparr>categories = None, tagsContains = Some [''Quick'', ''Easy'']\<rparr>"

definition mealTags :: "MealDetails \<Rightarrow> string list" where
  "mealTags m = map trim (split (orEmpty (strTags m)) CHR '','')"

fun matchesMood :: "MealDetails \<Rightarrow> Mood \<Rightarrow> bool" where
  "matchesMood m MoodAny = True"
| "matchesMood m (MoodOf mood) =
     (let conf = MOOD_MAP mood;
          category = orEmpty (strCategory m);
          tags = mealTags m;
          catOk = (case categories conf of None \<Rightarrow> True | Some cs \<Rightarrow> category \<in> set cs);
          tagOk = (case tagsContains conf of
                     None \<Rightarrow> True
                   | Some ts \<Rightarrow> list_ex (\<lambda>t. list_ex (\<lambda>x. includes_str x t) tags) ts)
      in catOk \<or> tagOk)"

definition matchesTime :: "MealDetails \<Rightarrow> TimeChoice \<Rightarrow> bool" where
  "matchesTime m time =
     (if time = TimeAny then True
      else
        let mins = estimateMinutes m
        in if time = Under15 then mins \<le> 15
           else if time = Under30 then mins \<le> 30
           else if time = Under45 then mins \<le> 45
           else mins \<ge> 60)"

definition excludeIngredients :: "MealDetails \<Rightarrow> string list \<Rightarrow> bool" where
  "excludeIngredients m excludes =
     (if excludes = [] then True
      else
        let ings = map (\<lambda>i. toLowerCase (ingredient i)) (getIngredients m)
        in \<not> list_ex (\<lambda>ex. list_ex (\<lambda>i. includes_str i ex) ings) excludes)"

section \<open>API client\<close>

text \<open>
  The network is a parameter of the model. \<^verbatim>\<open>fetch(url)\<close> either rejects (\<open>Inl\<close> of
  the error's message) or resolves to a response with its \<^verbatim>\<open>ok\<close> flag and the outcome of
  \<^verbatim>\<open>res.json()\<close>, which rejects in turn (\<open>Inl\<close>) or gives the data. Of the data only
  \<^verbatim>\<open>data?.meals\<close> is read: \<open>None\<close> when it is \<^verbatim>\<open>null\<close> or missing. The two
  endpoints are keyed by the ingredient and by the meal id that the URL is built from.
  A thrown error is its message.
\<close>

datatype 'a Response = Response (ok: bool) (json: "string + 'a")

record Network =
  fetchFilter :: "string \<Rightarrow> string + MealSummary list option Response"
  fetchLookup :: "string \<Rightarrow> string + MealDetails list option Response"

definition filterByIngredient :: "Network \<Rightarrow> string \<Rightarrow> string + MealSummary list" where
  "filterByIngredient net ing =
     (case fetchFilter net ing of
        Inl err \<Rightarrow> Inl err
      | Inr res \<Rightarrow>
          if \<not> ok res then Inl ''Network error fetching meals''
          else (case json res of
                  Inl err \<Rightarrow> Inl err
                | Inr data \<Rightarrow> Inr (case data of None \<Rightarrow> [] | Some ms \<Rightarrow> ms)))"

definition detailsById :: "Network \<Rightarrow> string \<Rightarrow> string + MealDetails option" where
  "detailsById net ident =
     (case fetchLookup net ident of
        Inl err \<Rightarrow> Inl err
      | Inr res \<Rightarrow>
          if \<not> ok res then Inr None
          else (case json res of
                  Inl err \<Rightarrow> Inl err
                | Inr data \<Rightarrow>
                    Inr (case data of None \<Rightarrow> None | Some [] \<Rightarrow> None | Some (m # rest) \<Rightarrow> Some m)))"

text \<open>
  \<^verbatim>\<open>await Promise.all(ps)\<close>: the values in order when every promise resolves, a thrown
  error when one rejects. Which rejection wins when several promises reject depends on
  timing, which is not modelled; the first one in list order is taken.
\<close>

fun promiseAll :: "(string + 'a) list \<Rightarrow> string + 'a list" where
  "promiseAll [] = Inr []"
| "promiseAll (p # ps) =
     (case p of
        Inl err \<Rightarrow> Inl err
      | Inr v \<Rightarrow> (case promiseAll ps of Inl err \<Rightarrow> Inl err | Inr vs \<Rightarrow> Inr (v # vs)))"

section \<open>Sets of meal ids\<close>

text \<open>
  A JavaScript \<^verbatim>\<open>Set\<close> iterates in insertion order, so it is modelled as the list of its
  elements in that order. \<^verbatim>\<open>new Set(xs)\<close> adds the elements of \<open>xs\<close> one by one.
\<close>

definition setAdd :: "string list \<Rightarrow> string \<Rightarrow> string list" where
  "setAdd s x = (if x \<in> set s then s else s @ [x])"

definition newSet :: "string list \<Rightarrow> string list" where
  "newSet xs = foldl setAdd [] xs"

text \<open>
  The loop \<^verbatim>\<open>for (const s of idSets)\<close> with the variable \<^verbatim>\<open>intersection\<close>, which
  starts as \<^verbatim>\<open>null\<close>.
\<close>

fun intersectLoop :: "string list option \<Rightarrow> string list list \<Rightarrow> string list option" where
  "intersectLoop intersection [] = intersection"
| "intersectLoop intersection (s # idSets) =
     intersectLoop
       (case intersection of
          None \<Rightarrow> Some (newSet s)
        | Some cur \<Rightarrow> Some (newSet (filter (\<lambda>ident. ident \<in> set s) cur)))
       idSets"

definition intersectAll :: "string list list \<Rightarrow> string list" where
  "intersectAll idSets = (case intersectLoop None idSets of None \<Rightarrow> [] | Some cur \<Rightarrow> cur)"

definition candidateIds :: "MealSummary list list \<Rightarrow> string list" where
  "candidateIds lsts = intersectAll (map (\<lambda>list. newSet (map idMeal list)) lsts)"

section \<open>Search orchestrator\<close>

record SearchInputs =
  ingredientsInput :: string
  excludeInput :: string
  time :: TimeChoice
  mood :: Mood
  diet :: Diet

record UiState =
  loading :: bool
  error :: "string option"
  meals :: "MealDetails list"
  expanded :: "string \<rightharpoonup> bool"

definition parsedIngredients :: "string \<Rightarrow> string list" where
  "parsedIngredients inp =
     filter (\<lambda>s. s \<noteq> []) (map (\<lambda>s. toLowerCase (trim s)) (split inp CHR '',''))"

definition parsedExcludes :: "string \<Rightarrow> string list" where
  "parsedExcludes inp =
     filter (\<lambda>s. s \<noteq> []) (map (\<lambda>s. toLowerCase (trim s)) (split inp CHR '',''))"

text \<open>
  What \<^verbatim>\<open>onSearch\<close> does, in program order: the calls of the state setters and the
  requests it sends.
\<close>

datatype Event =
    SetLoading bool
  | SetError "string option"
  | SetMeals "MealDetails list"
  | SetExpanded "string \<rightharpoonup> bool"
  | FilterRequest string
  | DetailsRequest string

fun applyEvent :: "UiState \<Rightarrow> Event \<Rightarrow> UiState" where
  "applyEvent s (SetLoading b) = s\<lparr>loading := b\<rparr>"
| "applyEvent s (SetError e) = s\<lparr>error := e\<rparr>"
| "applyEvent s (SetMeals ms) = s\<lparr>meals := ms\<rparr>"
| "applyEvent s (SetExpanded x) = s\<lparr>expanded := x\<rparr>"
| "applyEvent s (FilterRequest q) = s"
| "applyEvent s (DetailsRequest q) = s"

fun filterRequests :: "Event list \<Rightarrow> string list" where
  "filterRequests [] = []"
| "filterRequests (FilterRequest q # evs) = q # filterRequests evs"
| "filterRequests (e # evs) = filterRequests evs"

fun isRequest :: "Event \<Rightarrow> bool" where
  "isRequest (FilterRequest q) = True"
| "isRequest (DetailsRequest q) = True"
| "isRequest e = False"

text \<open>\<^verbatim>\<open>.filter((m) => !!m)\<close> on the fetched details.\<close>

fun nonNull :: "'a option list \<Rightarrow> 'a list" where
  "nonNull [] = []"
| "nonNull (None # ds) = nonNull ds"
| "nonNull (Some m # ds) = m # nonNull ds"

definition passesFilters :: "SearchInputs \<Rightarrow> MealDetails \<Rightarrow> bool" where
  "passesFilters inp m =
     (matchesTime m (time inp) \<and> matchesMood m (mood inp) \<and> matchesDiet m (diet inp)
      \<and> excludeIngredients m (parsedExcludes (excludeInput inp)))"

text \<open>\<^verbatim>\<open>err?.message || 'Something went wrong'\<close>.\<close>

definition errorMessage :: "string \<Rightarrow> string" where
  "errorMessage err = (if err = [] then ''Something went wrong'' else err)"

text \<open>
  The body of the \<^verbatim>\<open>try\<close> block: its events, and the error it throws if it does.
  Both \<^verbatim>\<open>Promise.all\<close> calls build all their promises first, so every request of a
  batch is sent whether or not one of them fails.
\<close>

definition tryBody :: "Network \<Rightarrow> SearchInputs \<Rightarrow> Event list \<times> string option" where
  "tryBody net inp =
     (let parsed = parsedIngredients (ingredientsInput inp)
      in if parsed = []
         then ([SetError (Some ''Enter at least one ingredient.''), SetLoading False], None)
         else
           let requests = map FilterRequest parsed
           in case promiseAll (map (filterByIngredient net) parsed) of
                Inl err \<Rightarrow> (requests, Some err)
              | Inr lsts \<Rightarrow>
                  let ids = candidateIds lsts
                  in if ids = []
                     then (requests @ [SetMeals [], SetLoading False], None)
                     else
                       let selected = take 24 ids;
                           lookups = map DetailsRequest selected
                       in (case promiseAll (map (detailsById net) selected) of
                             Inl err \<Rightarrow> (requests @ lookups, Some err)
                           | Inr ds \<Rightarrow>
                               (requests @ lookups
                                  @ [SetMeals (filter (passesFilters inp) (nonNull ds))],
                                None)))"

definition onSearch_events :: "Network \<Rightarrow> SearchInputs \<Rightarrow> Event list" where
  "onSearch_events net inp =
     [SetLoading True, SetError None, SetMeals [], SetExpanded Map.empty]
     @ (case tryBody net inp of
          (evs, thrown) \<Rightarrow>
            evs
            @ (case thrown of None \<Rightarrow> [] | Some err \<Rightarrow> [SetError (Some (errorMessage err))])
            @ [SetLoading False])"

definition onSearch :: "Network \<Rightarrow> SearchInputs \<Rightarrow> UiState \<Rightarrow> UiState" where
  "onSearch net inp s = foldl applyEvent s (onSearch_events net inp)"

section \<open>The specification's wording\<close>

text \<open>
  The definitions of this section are not translations of the program. They state, in the
  words of the specification, what three of its functions are said to compute, and are
  compared with the program below.
\<close>

text \<open>
  The exclusion predicate: true iff the exclusion list is empty, or no excluded term
  (lowercased) is a substring of any extracted ingredient name (lowercased).
\<close>

definition excludeIngredients_spec :: "MealDetails \<Rightarrow> string list \<Rightarrow> bool" where
  "excludeIngredients_spec m excludes =
     (excludes = [] \<or>
      \<not> (\<exists>ex\<in>set excludes. \<exists>l\<in>set (getIngredients m).
            sublist (toLowerCase ex) (toLowerCase (ingredient l))))"

text \<open>
  The mood predicate: \<^verbatim>\<open>Any\<close> is always true; otherwise the meal matches if its category
  is in the configured category set or any meal tag contains a configured tag substring.
  A set or list that the table does not configure has no member.
\<close>

definition matchesMood_spec :: "MealDetails \<Rightarrow> Mood \<Rightarrow> bool" where
  "matchesMood_spec m md =
     (case md of
        MoodAny \<Rightarrow> True
      | MoodOf k \<Rightarrow>
          orEmpty (strCategory m) \<in> set (case categories (MOOD_MAP k) of None \<Rightarrow> [] | Some cs \<Rightarrow> cs)
          \<or> list_ex (\<lambda>tag. list_ex (\<lambda>t. sublist t tag)
                        (case tagsContains (MOOD_MAP k) of None \<Rightarrow> [] | Some ts \<Rightarrow> ts))
               (mealTags m))"

text \<open>
  The word count: the number of whitespace-delimited non-empty tokens of a text, counted
  on the text as it is (neither trimmed nor split) as the number of places where a token
  starts: a character that is not white space and stands first or after white space.
\<close>

fun tokenStarts :: "bool \<Rightarrow> string \<Rightarrow> nat" where
  "tokenStarts afterSpace [] = 0"
| "tokenStarts afterSpace (c # cs) =
     (if afterSpace \<and> \<not> isSpace c then 1 else 0) + tokenStarts (isSpace c) cs"

definition countTokens :: "string \<Rightarrow> nat" where
  "countTokens s = tokenStarts True s"

section \<open>Auxiliary definitions and example data\<close>

text \<open>
  The line that the loop body of \<^verbatim>\<open>getIngredients\<close> pushes for slot \<open>i\<close>, and the
  condition under which it pushes it.
\<close>

definition slotLine :: "MealDetails \<Rightarrow> nat \<Rightarrow> IngredientLine" where
  "slotLine m i =
     \<lparr>ingredient = trim (orEmpty (strIngredient m i)),
      measure_str = trim (orEmpty (strMeasure m i))\<rparr>"

definition slotFilled :: "MealDetails \<Rightarrow> nat \<Rightarrow> bool" where
  "slotFilled m i = (trim (orEmpty (strIngredient m i)) \<noteq> [])"

text \<open>Two meal records, used to run the definitions.\<close>

definition peanutChicken :: MealDetails where
  "peanutChicken =
     \<lparr>idMeal = ''52001'', strMeal = ''Peanut Chicken'', strMealThumb = ''a.jpg'',
      strCategory = Some ''Chicken'', strArea = Some ''Thai'', strTags = None,
      strInstructions = Some ''Fry the chicken.  Add peanuts and serve. '',
      strIngredient = [1 \<mapsto> ''Chicken'', 2 \<mapsto> ''Peanuts'', 3 \<mapsto> ''  ''],
      strMeasure = [1 \<mapsto> ''500g '', 3 \<mapsto> ''1 tsp'']\<rparr>"

definition appleCake :: MealDetails where
  "appleCake =
     \<lparr>idMeal = ''52002'', strMeal = ''Apple Cake'', strMealThumb = ''b.jpg'',
      strCategory = Some ''Dessert'', strArea = None, strTags = Some ''Cake, Sweet'',
      strInstructions = None,
      strIngredient = [1 \<mapsto> ''Wheat Flour'', 2 \<mapsto> ''Apple''],
      strMeasure = [1 \<mapsto> ''200g'', 2 \<mapsto> ''3'']\<rparr>"

text \<open>
  The answers of the ingredient endpoint: three meals for chicken, \<^verbatim>\<open>{"meals": null}\<close>
  for anything else.
\<close>

definition chickenSummary :: MealSummary where
  "chickenSummary = \<lparr>idMeal = ''52001'', strMeal = ''Peanut Chicken'', strMealThumb = ''a.jpg''\<rparr>"

definition cakeSummary :: MealSummary where
  "cakeSummary = \<lparr>idMeal = ''52002'', strMeal = ''Apple Cake'', strMealThumb = ''b.jpg''\<rparr>"

definition ghostSummary :: MealSummary where
  "ghostSummary = \<lparr>idMeal = ''52003'', strMeal = ''Ghost'', strMealThumb = ''c.jpg''\<rparr>"

definition chickenResults :: "string \<Rightarrow> string + MealSummary list option Response" where
  "chickenResults q =
     Inr (Response True
            (Inr (if q = ''chicken'' then Some [chickenSummary, cakeSummary, ghostSummary]
                  else None)))"

text \<open>
  Three networks. In the first the lookup endpoint knows the two meals above and answers
  any other id with an HTTP error status. In the second the lookup of any id but the first
  fails in \<^verbatim>\<open>fetch\<close> itself. In the third every \<^verbatim>\<open>fetch\<close> fails.
\<close>

definition demoNet :: Network where
  "demoNet =
     \<lparr>fetchFilter = chickenResults,
      fetchLookup = (\<lambda>i. if i = ''52001'' then Inr (Response True (Inr (Some [peanutChicken])))
                        else if i = ''52002'' then Inr (Response True (Inr (Some [appleCake])))
                        else Inr (Response False (Inl ''Unexpected end of JSON input'')))\<rparr>"

definition flakyNet :: Network where
  "flakyNet =
     \<lparr>fetchFilter = chickenResults,
      fetchLookup = (\<lambda>i. if i = ''52001'' then Inr (Response True (Inr (Some [peanutChicken])))
                        else Inl ''Failed to fetch'')\<rparr>"

definition downNet :: Network where
  "downNet =
     \<lparr>fetchFilter = (\<lambda>q. Inl ''Failed to fetch''), fetchLookup = (\<lambda>i. Inl ''Failed to fetch'')\<rparr>"

text \<open>Three submitted forms, and a screen that shows the apple cake with its card open.\<close>

definition chickenSearch :: SearchInputs where
  "chickenSearch =
     \<lparr>ingredientsInput = ''Chicken'', excludeInput = [], time = TimeAny, mood = MoodAny,
      diet = GlutenFree\<rparr>"

definition doubleSearch :: SearchInputs where
  "doubleSearch =
     \<lparr>ingredientsInput = ''chicken, Chicken'', excludeInput = [], time = TimeAny, mood = MoodAny,
      diet = DietNone\<rparr>"

definition blankSearch :: SearchInputs where
  "blankSearch =
     \<lparr>ingredientsInput = '' , '', excludeInput = [], time = TimeAny, mood = MoodAny,
      diet = DietNone\<rparr>"

definition shownState :: UiState where
  "shownState =
     \<lparr>loading = False, error = None, meals = [appleCake], expanded = [''52002'' \<mapsto> True]\<rparr>"

section \<open>Strings and the ingredient loop\<close>

lemma includes_str_sublist: "includes_str s t \<longleftrightarrow> sublist t s"
proof (induction s)
  case Nil
  then show ?case by simp
next
  case (Cons c cs)
  show ?case
  proof (cases t)
    case Nil
    then show ?thesis by simp
  next
    case (Cons a as)
    with Cons.IH show ?thesis by (simp add: sublist_Cons_right)
  qed
qed

lemma trim_Nil [simp]: "trim [] = []"
  by (simp add: trim_def)

lemma getIngredients_loop_step:
  "i \<le> 20 \<Longrightarrow> getIngredients_loop m i items =
     getIngredients_loop m (Suc i) (if slotFilled m i then items @ [slotLine m i] else items)"
  by (subst getIngredients_loop.simps)
    (auto simp: slotLine_def slotFilled_def orEmpty_def Let_def split: option.splits)

lemma getIngredients_loop_exit: "20 < i \<Longrightarrow> getIngredients_loop m i items = items"
  by (subst getIngredients_loop.simps) simp

lemma getIngredients_loop_eq:
  "i + n = 21 \<Longrightarrow>
   getIngredients_loop m i items = items @ map (slotLine m) (filter (slotFilled m) [i..<21])"
proof (induction n arbitrary: i items)
  case 0
  then show ?case by (simp add: getIngredients_loop_exit)
next
  case (Suc n)
  then have le: "i \<le> 20" and nxt: "Suc i + n = 21" by simp_all
  from le have up: "[i..<21] = i # [Suc i..<21]" by (simp add: upt_conv_Cons)
  show ?case
    by (simp add: getIngredients_loop_step [OF le] Suc.IH [OF nxt] up)
qed

lemma getIngredients_eq:
  "getIngredients m = map (slotLine m) (filter (slotFilled m) [1..<21])"
  by (simp add: getIngredients_def getIngredients_loop_eq [where n = 20])

lemma isUpper_toLowerChar: "\<not> isUpper (toLowerChar c)"
  by (auto simp: toLowerChar_def isUpper_def Let_def)

lemma dropWhile_id: "xs = [] \<or> \<not> P (hd xs) \<Longrightarrow> dropWhile P xs = xs"
  by (cases xs) auto

lemma trim_idem: "trim (trim s) = trim s"
proof -
  define a where "a = dropWhile isSpace s"
  define b where "b = dropWhile isSpace (rev a)"
  have t: "trim s = rev b" by (simp add: trim_def a_def b_def)
  have ha: "a = [] \<or> \<not> isSpace (hd a)" unfolding a_def by (metis hd_dropWhile)
  have hb: "b = [] \<or> \<not> isSpace (hd b)" unfolding b_def by (metis hd_dropWhile)
  have "suffix b (rev a)" unfolding b_def by (rule suffix_dropWhile)
  then obtain p where p: "rev a = p @ b" by (auto simp: suffix_def)
  have "rev b = [] \<or> \<not> isSpace (hd (rev b))"
  proof (cases "b = []")
    case True then show ?thesis by simp
  next
    case False
    then have "last b = last (rev a)" using p by simp
    also have "\<dots> = hd a" using False p by (metis append_is_Nil_conv last_rev rev_is_Nil_conv)
    finally have "hd (rev b) = hd a" using False by (simp add: hd_rev)
    moreover have "a \<noteq> []" using False p by auto
    ultimately show ?thesis using ha by simp
  qed
  then have 1: "dropWhile isSpace (rev b) = rev b" by (rule dropWhile_id)
  have 2: "dropWhile isSpace b = b" using hb by (rule dropWhile_id)
  show ?thesis unfolding t by (simp add: trim_def 1 2)
qed

text \<open>
  Claim C7. \<^verbatim>\<open>getIngredients\<close> visits the slots 1 to 20 in ascending order and returns
  exactly the slots whose ingredient field is not blank after trimming, in slot order, each
  as the trimmed ingredient with the trimmed measure, the measure being the empty string
  when the field is absent. No line of the output has a blank ingredient.
\<close>

theorem getIngredients_scans_slots:
  "getIngredients m =
     map (\<lambda>i. \<lparr>ingredient = trim (orEmpty (strIngredient m i)),
                measure_str = trim (orEmpty (strMeasure m i))\<rparr>)
       (filter (\<lambda>i. trim (orEmpty (strIngredient m i)) \<noteq> []) [1..<21])
   \<and> (\<forall>l\<in>set (getIngredients m). trim (ingredient l) \<noteq> [])"
proof -
  have eq: "getIngredients m = map (slotLine m) (filter (slotFilled m) [1..<21])"
    by (rule getIngredients_eq)
  have "slotLine m = (\<lambda>i. \<lparr>ingredient = trim (orEmpty (strIngredient m i)),
                measure_str = trim (orEmpty (strMeasure m i))\<rparr>)"
    by (rule ext) (simp add: slotLine_def)
  moreover have "slotFilled m = (\<lambda>i. trim (orEmpty (strIngredient m i)) \<noteq> [])"
    by (rule ext) (simp add: slotFilled_def)
  moreover have "\<forall>l\<in>set (getIngredients m). trim (ingredient l) \<noteq> []"
    unfolding eq by (auto simp: slotLine_def slotFilled_def trim_idem)
  ultimately show ?thesis using eq by simp
qed

text \<open>
  The peanut chicken fills slots 1 and 2, holds only blanks in slot 3 and has
  no measure in slot 2.
\<close>

theorem getIngredients_scans_slots_witness:
  "getIngredients peanutChicken =
     [\<lparr>ingredient = ''Chicken'', measure_str = ''500g''\<rparr>,
      \<lparr>ingredient = ''Peanuts'', measure_str = []\<rparr>]
   \<and> list_all (\<lambda>l. trim (ingredient l) \<noteq> []) (getIngredients peanutChicken)"
proof -
  have "map (\<lambda>i. \<lparr>ingredient = trim (orEmpty (strIngredient peanutChicken i)),
                measure_str = trim (orEmpty (strMeasure peanutChicken i))\<rparr>)
       (filter (\<lambda>i. trim (orEmpty (strIngredient peanutChicken i)) \<noteq> []) [1..<21])
     = [\<lparr>ingredient = ''Chicken'', measure_str = ''500g''\<rparr>,
      \<lparr>ingredient = ''Peanuts'', measure_str = []\<rparr>]"
    by code_simp
  then show ?thesis
    using getIngredients_scans_slots [of peanutChicken] by (simp add: list_all_iff)
qed

section \<open>Diet\<close>

lemma getIngredients_update_category_tags:
  "getIngredients (m\<lparr>strCategory := c, strTags := t\<rparr>) = getIngredients m"
  by (simp add: getIngredients_eq slotLine_def slotFilled_def cong: map_cong filter_cong)

lemma matchesDiet_GlutenFree_iff:
  "matchesDiet m GlutenFree \<longleftrightarrow>
     (\<forall>l\<in>set (getIngredients m). \<forall>g\<in>set gluteny. \<not> sublist g (toLowerCase (ingredient l)))"
  by (auto simp: matchesDiet_def Let_def list_ex_iff includes_str_sublist)

lemma wheat_gluteny: "''wheat'' \<in> set gluteny"
  by (simp add: gluteny_def)

text \<open>
  Claim C5. With the diet \<^verbatim>\<open>Gluten-Free\<close>, \<^verbatim>\<open>matchesDiet\<close> holds exactly when no
  extracted ingredient name, lowercased, contains an entry of the fixed list flour,
  bread, pasta, noodles, wheat, barley, bulgur, semolina. A meal with an ingredient name
  that contains wheat is rejected whatever its category and tags are.
\<close>

theorem matchesDiet_GlutenFree:
  "(matchesDiet m GlutenFree \<longleftrightarrow>
      (\<forall>l\<in>set (getIngredients m). \<forall>g\<in>set gluteny. \<not> sublist g (toLowerCase (ingredient l))))
   \<and> gluteny = [''flour'', ''bread'', ''pasta'', ''noodles'', ''wheat'', ''barley'', ''bulgur'', ''semolina'']
   \<and> ((\<exists>l\<in>set (getIngredients m). sublist ''wheat'' (toLowerCase (ingredient l))) \<longrightarrow>
        (\<forall>c t. \<not> matchesDiet (m\<lparr>strCategory := c, strTags := t\<rparr>) GlutenFree))"
proof (intro conjI impI allI)
  show "matchesDiet m GlutenFree \<longleftrightarrow>
      (\<forall>l\<in>set (getIngredients m). \<forall>g\<in>set gluteny. \<not> sublist g (toLowerCase (ingredient l)))"
    by (rule matchesDiet_GlutenFree_iff)
next
  show "gluteny = [''flour'', ''bread'', ''pasta'', ''noodles'', ''wheat'', ''barley'', ''bulgur'', ''semolina'']"
    by (rule gluteny_def)
next
  fix c t
  assume "\<exists>l\<in>set (getIngredients m). sublist ''wheat'' (toLowerCase (ingredient l))"
  then obtain l where l: "l \<in> set (getIngredients m)"
    and w: "sublist ''wheat'' (toLowerCase (ingredient l))" by (rule bexE)
  from l have l': "l \<in> set (getIngredients (m\<lparr>strCategory := c, strTags := t\<rparr>))"
    by (simp only: getIngredients_update_category_tags)
  show "\<not> matchesDiet (m\<lparr>strCategory := c, strTags := t\<rparr>) GlutenFree"
  proof
    assume "matchesDiet (m\<lparr>strCategory := c, strTags := t\<rparr>) GlutenFree"
    then have "\<forall>l\<in>set (getIngredients (m\<lparr>strCategory := c, strTags := t\<rparr>)).
        \<forall>g\<in>set gluteny. \<not> sublist g (toLowerCase (ingredient l))"
      by (simp only: matchesDiet_GlutenFree_iff)
    then have "\<forall>g\<in>set gluteny. \<not> sublist g (toLowerCase (ingredient l))"
      using l' by (rule bspec)
    then have "\<not> sublist ''wheat'' (toLowerCase (ingredient l))"
      using wheat_gluteny by (rule bspec)
    then show False using w by (rule notE)
  qed
qed

text \<open>
  The apple cake lists \<^verbatim>\<open>Wheat Flour\<close> and is rejected also as a vegetarian
  meal tagged vegan; the peanut chicken is accepted.
\<close>

theorem matchesDiet_GlutenFree_witness:
  "(\<exists>l\<in>set (getIngredients appleCake). sublist ''wheat'' (toLowerCase (ingredient l)))
   \<and> \<not> matchesDiet (appleCake\<lparr>strCategory := Some ''Vegetarian'', strTags := Some ''Vegan''\<rparr>) GlutenFree
   \<and> matchesDiet peanutChicken GlutenFree"
proof -
  have h: "\<exists>l\<in>set (getIngredients appleCake). sublist ''wheat'' (toLowerCase (ingredient l))"
    by code_simp
  have "(\<exists>l\<in>set (getIngredients appleCake). sublist ''wheat'' (toLowerCase (ingredient l))) \<longrightarrow>
        (\<forall>c t. \<not> matchesDiet (appleCake\<lparr>strCategory := c, strTags := t\<rparr>) GlutenFree)"
    using matchesDiet_GlutenFree [of appleCake] by (elim conjE)
  with h have "\<forall>c t. \<not> matchesDiet (appleCake\<lparr>strCategory := c, strTags := t\<rparr>) GlutenFree"
    by (rule rev_mp)
  then have a: "\<not> matchesDiet (appleCake\<lparr>strCategory := Some ''Vegetarian'', strTags := Some ''Vegan''\<rparr>) GlutenFree"
    by (elim allE)
  have g: "\<forall>l\<in>set (getIngredients peanutChicken). \<forall>g\<in>set gluteny. \<not> sublist g (toLowerCase (ingredient l))"
    by code_simp
  have "matchesDiet peanutChicken GlutenFree \<longleftrightarrow>
      (\<forall>l\<in>set (getIngredients peanutChicken). \<forall>g\<in>set gluteny. \<not> sublist g (toLowerCase (ingredient l)))"
    using matchesDiet_GlutenFree [of peanutChicken] by (elim conjE)
  with g have c: "matchesDiet peanutChicken GlutenFree" by (rule rev_iffD2)
  from h a c show ?thesis by (intro conjI)
qed

section \<open>Exclusion\<close>

lemma toLowerChar_idem: "toLowerChar (toLowerChar c) = toLowerChar c"
  using isUpper_toLowerChar [of c] by (simp add: toLowerChar_def)

lemma toLowerCase_idem: "toLowerCase (toLowerCase s) = toLowerCase s"
  by (simp add: toLowerCase_def toLowerChar_idem)

lemma toLowerCase_no_upper: "c \<in> set (toLowerCase s) \<Longrightarrow> \<not> isUpper c"
  by (auto simp: toLowerCase_def isUpper_toLowerChar)

lemma upper_term_never_included:
  assumes "list_ex isUpper ex"
  shows "\<not> includes_str (toLowerCase s) ex"
proof
  assume "includes_str (toLowerCase s) ex"
  then have "sublist ex (toLowerCase s)" by (simp only: includes_str_sublist)
  then have sub: "set ex \<subseteq> set (toLowerCase s)" by (rule set_mono_sublist)
  from assms obtain c where c: "c \<in> set ex" and u: "isUpper c" by (auto simp: list_ex_iff)
  from c sub have "c \<in> set (toLowerCase s)" by (rule subsetD [rotated])
  then have "\<not> isUpper c" by (rule toLowerCase_no_upper)
  then show False using u by (rule notE)
qed

lemma excludeIngredients_iff:
  "excludeIngredients m excludes \<longleftrightarrow>
     excludes = [] \<or>
     (\<forall>ex\<in>set excludes. \<forall>l\<in>set (getIngredients m). \<not> sublist ex (toLowerCase (ingredient l)))"
  by (auto simp: excludeIngredients_def Let_def list_ex_iff includes_str_sublist)

lemma parsedExcludes_lowercased:
  "t \<in> set (parsedExcludes inp) \<Longrightarrow> toLowerCase t = t \<and> \<not> list_ex isUpper t \<and> t \<noteq> []"
  by (auto simp: parsedExcludes_def toLowerCase_idem list_ex_iff dest: toLowerCase_no_upper)

lemma excludeIngredients_spec_lowercased:
  assumes "\<forall>ex\<in>set excludes. toLowerCase ex = ex"
  shows "excludeIngredients m excludes \<longleftrightarrow> excludeIngredients_spec m excludes"
  using assms by (auto simp: excludeIngredients_iff excludeIngredients_spec_def)

text \<open>
  Claim C6 as it is written compares the lowercased term. The program compares the term
  as it is given: for the peanut chicken and the exclusion list \<^verbatim>\<open>["PEANUT"]\<close> it
  answers true, although the lowercased term \<^verbatim>\<open>peanut\<close> occurs in the lowercased
  ingredient \<^verbatim>\<open>peanuts\<close>.
\<close>

theorem excludeIngredients_uppercase_term_counterexample:
  "\<not> (excludeIngredients peanutChicken [''PEANUT'']
        \<longleftrightarrow> excludeIngredients_spec peanutChicken [''PEANUT''])"
proof -
  have a: "excludeIngredients peanutChicken [''PEANUT'']" by code_simp
  have b: "\<not> excludeIngredients_spec peanutChicken [''PEANUT'']" by code_simp
  from a b show ?thesis by simp
qed

text \<open>
  Claim C6, amended. For every meal and every exclusion list whose terms are already in
  lower case, \<^verbatim>\<open>excludeIngredients\<close> holds exactly when the list is empty or no excluded
  term, lowercased, is contained in an extracted ingredient name, lowercased.
\<close>

theorem excludeIngredients_lowercased_terms:
  "(\<forall>ex\<in>set excludes. toLowerCase ex = ex) \<Longrightarrow>
   excludeIngredients m excludes \<longleftrightarrow>
     excludes = [] \<or>
     \<not> (\<exists>ex\<in>set excludes. \<exists>l\<in>set (getIngredients m).
           sublist (toLowerCase ex) (toLowerCase (ingredient l)))"
  using excludeIngredients_spec_lowercased [of excludes m]
  by (simp only: excludeIngredients_spec_def)

text \<open>
  The meal with the ingredients Chicken and Peanuts is rejected for the list
  \<^verbatim>\<open>["peanut"]\<close> and accepted for the list \<^verbatim>\<open>["almond"]\<close>.
\<close>

theorem excludeIngredients_lowercased_terms_witness:
  "toLowerCase ''peanut'' = ''peanut''
   \<and> toLowerCase ''almond'' = ''almond''
   \<and> map ingredient (getIngredients peanutChicken) = [''Chicken'', ''Peanuts'']
   \<and> \<not> excludeIngredients peanutChicken [''peanut'']
   \<and> excludeIngredients peanutChicken [''almond'']"
proof -
  have p: "\<forall>ex\<in>set [''peanut'']. toLowerCase ex = ex" by code_simp
  have a: "\<forall>ex\<in>set [''almond'']. toLowerCase ex = ex" by code_simp
  have i: "map ingredient (getIngredients peanutChicken) = [''Chicken'', ''Peanuts'']"
    by code_simp
  have np: "\<not> ([''peanut''] = [] \<or>
     \<not> (\<exists>ex\<in>set [''peanut'']. \<exists>l\<in>set (getIngredients peanutChicken).
           sublist (toLowerCase ex) (toLowerCase (ingredient l))))"
    by code_simp
  have r: "\<not> excludeIngredients peanutChicken [''peanut'']"
    unfolding excludeIngredients_lowercased_terms [OF p] by (rule np)
  have na: "[''almond''] = [] \<or>
     \<not> (\<exists>ex\<in>set [''almond'']. \<exists>l\<in>set (getIngredients peanutChicken).
           sublist (toLowerCase ex) (toLowerCase (ingredient l)))"
    by code_simp
  have k: "excludeIngredients peanutChicken [''almond'']"
    unfolding excludeIngredients_lowercased_terms [OF a] by (rule na)
  have p': "toLowerCase ''peanut'' = ''peanut''" by code_simp
  have a': "toLowerCase ''almond'' = ''almond''" by code_simp
  from p' a' i r k show ?thesis by (intro conjI)
qed

text \<open>
  Claim C9. \<^verbatim>\<open>excludeIngredients\<close> lowercases the ingredient names and takes the
  exclusion terms as they are. A term with an upper-case character is contained in no
  lowercased ingredient name, so it rejects no meal, and dropping such terms from the list
  does not change the answer. Every term that the parser of the exclusion input produces
  is in lower case, and on those terms the answer is the case-insensitive one.
\<close>

theorem excludeIngredients_terms_verbatim:
  "(list_ex isUpper ex \<longrightarrow>
      (\<forall>l\<in>set (getIngredients m). \<not> includes_str (toLowerCase (ingredient l)) ex)
      \<and> excludeIngredients m [ex])
   \<and> excludeIngredients m excludes
       = excludeIngredients m (filter (\<lambda>ex. \<not> list_ex isUpper ex) excludes)
   \<and> (\<forall>t\<in>set (parsedExcludes inp). \<not> list_ex isUpper t \<and> toLowerCase t = t)
   \<and> (excludeIngredients m (parsedExcludes inp)
        \<longleftrightarrow> excludeIngredients_spec m (parsedExcludes inp))"
proof (intro conjI impI ballI)
  fix l
  assume "list_ex isUpper ex"
  then show "\<not> includes_str (toLowerCase (ingredient l)) ex"
    by (rule upper_term_never_included)
next
  assume u: "list_ex isUpper ex"
  show "excludeIngredients m [ex]"
    by (simp add: excludeIngredients_def Let_def list_ex_iff upper_term_never_included [OF u])
next
  have "\<And>ex l. ex \<in> set excludes \<Longrightarrow> sublist ex (toLowerCase (ingredient l)) \<Longrightarrow>
      \<not> list_ex isUpper ex"
    using upper_term_never_included includes_str_sublist by blast
  then show "excludeIngredients m excludes
       = excludeIngredients m (filter (\<lambda>ex. \<not> list_ex isUpper ex) excludes)"
    unfolding excludeIngredients_iff by (auto simp: filter_empty_conv)
next
  fix t assume "t \<in> set (parsedExcludes inp)"
  then show "\<not> list_ex isUpper t" by (simp add: parsedExcludes_lowercased)
next
  fix t assume "t \<in> set (parsedExcludes inp)"
  then show "toLowerCase t = t" by (simp add: parsedExcludes_lowercased)
next
  have "\<forall>ex\<in>set (parsedExcludes inp). toLowerCase ex = ex"
    by (simp add: parsedExcludes_lowercased)
  then show "excludeIngredients m (parsedExcludes inp)
        \<longleftrightarrow> excludeIngredients_spec m (parsedExcludes inp)"
    by (rule excludeIngredients_spec_lowercased)
qed

text \<open>
  The term \<^verbatim>\<open>Peanut\<close> does not reject the peanut chicken, the term
  \<^verbatim>\<open>peanut\<close> does, and the parser turns the input \<^verbatim>\<open> Peanut ,, ALMOND\<close> into
  \<^verbatim>\<open>peanut\<close> and \<^verbatim>\<open>almond\<close>.
\<close>

theorem excludeIngredients_terms_verbatim_witness:
  "list_ex isUpper ''Peanut''
   \<and> excludeIngredients peanutChicken [''Peanut'']
   \<and> \<not> excludeIngredients peanutChicken [''peanut'']
   \<and> parsedExcludes '' Peanut ,, ALMOND'' = [''peanut'', ''almond'']
   \<and> list_all (\<lambda>t. \<not> list_ex isUpper t \<and> toLowerCase t = t)
         (parsedExcludes '' Peanut ,, ALMOND'')
   \<and> \<not> excludeIngredients peanutChicken (parsedExcludes '' Peanut ,, ALMOND'')"
proof -
  note inst = excludeIngredients_terms_verbatim
    [of "''Peanut''" peanutChicken "[''Peanut'']" "'' Peanut ,, ALMOND''"]
  have u: "list_ex isUpper ''Peanut''" by code_simp
  from inst have "list_ex isUpper ''Peanut'' \<longrightarrow>
      (\<forall>l\<in>set (getIngredients peanutChicken).
          \<not> includes_str (toLowerCase (ingredient l)) ''Peanut'')
      \<and> excludeIngredients peanutChicken [''Peanut'']"
    by (elim conjE)
  with u have a: "excludeIngredients peanutChicken [''Peanut'']" by (elim impE conjE)
  have b: "\<not> excludeIngredients peanutChicken [''peanut'']" by code_simp
  have c: "parsedExcludes '' Peanut ,, ALMOND'' = [''peanut'', ''almond'']" by code_simp
  from inst have "\<forall>t\<in>set (parsedExcludes '' Peanut ,, ALMOND'').
      \<not> list_ex isUpper t \<and> toLowerCase t = t"
    by (elim conjE)
  then have d: "list_all (\<lambda>t. \<not> list_ex isUpper t \<and> toLowerCase t = t)
      (parsedExcludes '' Peanut ,, ALMOND'')"
    by (simp only: list_all_iff)
  have e: "\<not> excludeIngredients peanutChicken (parsedExcludes '' Peanut ,, ALMOND'')"
    by code_simp
  from u a b c d e show ?thesis by (intro conjI)
qed

section \<open>Mood\<close>

lemma matchesMood_Comforting: "matchesMood m (MoodOf Comforting)"
  by (simp add: Let_def)

lemma matchesMood_Quick: "matchesMood m (MoodOf Quick)"
  by (simp add: Let_def)

text \<open>
  Claim C1 says that for a mood other than \<^verbatim>\<open>Any\<close> a meal is accepted exactly when
  its category is in the mood's category set or one of its tags contains one of the mood's
  tag substrings. The program takes a field that the table leaves out as satisfied, and
  joins the two checks by a disjunction: the moods \<^verbatim>\<open>Comforting\<close> (no tag list) and
  \<^verbatim>\<open>Quick\<close> (no category set) accept every meal. The apple cake, of category
  \<^verbatim>\<open>Dessert\<close> with the tags \<^verbatim>\<open>Cake\<close> and \<^verbatim>\<open>Sweet\<close>, matches neither the
  categories nor the tag substrings of these moods and is accepted by both.
\<close>

theorem matchesMood_accepts_unmatched_meal:
  "matchesMood appleCake (MoodOf Comforting)
   \<and> \<not> matchesMood_spec appleCake (MoodOf Comforting)
   \<and> matchesMood appleCake (MoodOf Quick)
   \<and> \<not> matchesMood_spec appleCake (MoodOf Quick)
   \<and> strCategory appleCake = Some ''Dessert''
   \<and> mealTags appleCake = [''Cake'', ''Sweet'']"
proof -
  have a: "matchesMood appleCake (MoodOf Comforting)" by (rule matchesMood_Comforting)
  have b: "\<not> matchesMood_spec appleCake (MoodOf Comforting)" by code_simp
  have c: "matchesMood appleCake (MoodOf Quick)" by (rule matchesMood_Quick)
  have d: "\<not> matchesMood_spec appleCake (MoodOf Quick)" by code_simp
  have e: "strCategory appleCake = Some ''Dessert''" by (simp add: appleCake_def)
  have f: "mealTags appleCake = [''Cake'', ''Sweet'']" by code_simp
  from a b c d e f show ?thesis by (intro conjI)
qed

section \<open>Intersection of the id sets\<close>

lemma set_setAdd: "set (setAdd s x) = insert x (set s)"
  by (auto simp: setAdd_def)

lemma set_foldl_setAdd: "set (foldl setAdd acc xs) = set acc \<union> set xs"
  by (induction xs arbitrary: acc) (auto simp: set_setAdd)

lemma set_newSet: "set (newSet xs) = set xs"
  by (simp add: newSet_def set_foldl_setAdd)

lemma distinct_foldl_setAdd: "distinct acc \<Longrightarrow> distinct (foldl setAdd acc xs)"
  by (induction xs arbitrary: acc) (auto simp: setAdd_def)

lemma distinct_newSet: "distinct (newSet xs)"
  by (simp add: newSet_def distinct_foldl_setAdd)

lemma intersectLoop_Some:
  "\<exists>r. intersectLoop (Some cur) idSets = Some r \<and> set r = set cur \<inter> (\<Inter>s\<in>set idSets. set s)"
proof (induction idSets arbitrary: cur)
  case Nil
  then show ?case by simp
next
  case (Cons s idSets)
  obtain r where "intersectLoop (Some (newSet (filter (\<lambda>ident. ident \<in> set s) cur))) idSets = Some r"
    and "set r = set (newSet (filter (\<lambda>ident. ident \<in> set s) cur)) \<inter> (\<Inter>s\<in>set idSets. set s)"
    using Cons.IH by blast
  then show ?case by (auto simp: set_newSet)
qed

lemma set_intersectAll:
  "set (intersectAll (s # idSets)) = (\<Inter>x\<in>set (s # idSets). set x)"
proof -
  obtain r where "intersectLoop (Some (newSet s)) idSets = Some r"
    and "set r = set (newSet s) \<inter> (\<Inter>s\<in>set idSets. set s)"
    using intersectLoop_Some by blast
  then show ?thesis by (auto simp: intersectAll_def set_newSet)
qed

lemma distinct_intersectLoop:
  "distinct cur \<Longrightarrow> intersectLoop (Some cur) idSets = Some r \<Longrightarrow> distinct r"
proof (induction idSets arbitrary: cur)
  case Nil
  then show ?case by simp
next
  case (Cons s idSets)
  from Cons.prems(2)
  have "intersectLoop (Some (newSet (filter (\<lambda>ident. ident \<in> set s) cur))) idSets = Some r"
    by simp
  with distinct_newSet show ?case by (rule Cons.IH)
qed

lemma distinct_intersectAll: "distinct (intersectAll idSets)"
proof (cases idSets)
  case Nil
  then show ?thesis by (simp add: intersectAll_def)
next
  case (Cons s rest)
  obtain r where r: "intersectLoop (Some (newSet s)) rest = Some r"
    using intersectLoop_Some by blast
  then have "distinct r" using distinct_newSet by (rule distinct_intersectLoop [rotated])
  with r Cons show ?thesis by (simp add: intersectAll_def)
qed

lemma set_candidateIds:
  "lsts \<noteq> [] \<Longrightarrow> set (candidateIds lsts) = (\<Inter>l\<in>set lsts. idMeal ` set l)"
  by (cases lsts) (simp_all add: candidateIds_def set_intersectAll set_newSet)

lemma distinct_candidateIds: "distinct (candidateIds lsts)"
  by (simp add: candidateIds_def distinct_intersectAll)

text \<open>
  Claim C8. The intersection that \<^verbatim>\<open>onSearch\<close> computes over the id lists of the
  ingredient queries is commutative and associative as a set, a list intersected with
  itself gives the ids of the list, and an intersection with an empty list is empty. In
  general the ids left by the loop are the ids common to all the lists.
\<close>

theorem intersection_algebra:
  "set (intersectAll [newSet a, newSet b]) = set (intersectAll [newSet b, newSet a])
   \<and> set (intersectAll [newSet (intersectAll [newSet a, newSet b]), newSet c])
       = set (intersectAll [newSet a, newSet (intersectAll [newSet b, newSet c])])
   \<and> set (intersectAll [newSet a, newSet a]) = set a
   \<and> intersectAll [newSet a, newSet []] = []
   \<and> intersectAll [newSet [], newSet a] = []
   \<and> set (intersectAll (map newSet (l # ls))) = (\<Inter>x\<in>set (l # ls). set x)"
proof (intro conjI)
  show "set (intersectAll [newSet a, newSet b]) = set (intersectAll [newSet b, newSet a])"
    by (auto simp: set_intersectAll set_newSet)
  show "set (intersectAll [newSet (intersectAll [newSet a, newSet b]), newSet c])
       = set (intersectAll [newSet a, newSet (intersectAll [newSet b, newSet c])])"
    by (auto simp: set_intersectAll set_newSet)
  show "set (intersectAll [newSet a, newSet a]) = set a"
    by (auto simp: set_intersectAll set_newSet)
  have "set (intersectAll [newSet a, newSet []]) = {}"
    by (simp add: set_intersectAll set_newSet)
  then show "intersectAll [newSet a, newSet []] = []" by simp
  have "set (intersectAll [newSet [], newSet a]) = {}"
    by (simp add: set_intersectAll set_newSet)
  then show "intersectAll [newSet [], newSet a] = []" by simp
  show "set (intersectAll (map newSet (l # ls))) = (\<Inter>x\<in>set (l # ls). set x)"
    by (simp add: set_intersectAll set_newSet)
qed

text \<open>
  Two id lists with a repeated id and one id in common.
\<close>

theorem intersection_algebra_witness:
  "set (intersectAll [newSet [''1'', ''2'', ''1''], newSet [''3'', ''2'']]) = {''2''}
   \<and> set (intersectAll [newSet [''3'', ''2''], newSet [''1'', ''2'', ''1'']]) = {''2''}
   \<and> set (intersectAll [newSet [''1'', ''2'', ''1''], newSet [''1'', ''2'', ''1'']]) = {''1'', ''2''}
   \<and> intersectAll [newSet [''1'', ''2'', ''1''], newSet []] = []"
proof -
  note inst = intersection_algebra
    [of "[''1'', ''2'', ''1'']" "[''3'', ''2'']" "[''1'']" "[''1'', ''2'', ''1'']" "[]"]
  have a: "set (intersectAll [newSet [''1'', ''2'', ''1''], newSet [''3'', ''2'']]) = {''2''}"
    by code_simp
  from inst have "set (intersectAll [newSet [''1'', ''2'', ''1''], newSet [''3'', ''2'']])
      = set (intersectAll [newSet [''3'', ''2''], newSet [''1'', ''2'', ''1'']])"
    by (elim conjE)
  with a have b: "set (intersectAll [newSet [''3'', ''2''], newSet [''1'', ''2'', ''1'']]) = {''2''}"
    by simp
  from inst have "set (intersectAll [newSet [''1'', ''2'', ''1''], newSet [''1'', ''2'', ''1'']])
      = set [''1'', ''2'', ''1'']"
    by (elim conjE)
  then have c: "set (intersectAll [newSet [''1'', ''2'', ''1''], newSet [''1'', ''2'', ''1'']])
      = {''1'', ''2''}"
    by auto
  from inst have d: "intersectAll [newSet [''1'', ''2'', ''1''], newSet []] = []"
    by (elim conjE)
  from a b c d show ?thesis by (intro conjI)
qed

section \<open>Estimated minutes\<close>

lemma mathRound_quarters:
  "mathRound (real w * 0.25 + real n * 2) = int ((w + 8 * n + 2) div 4)"
proof -
  have "real w * 0.25 + real n * 2 + 1 / 2 = real (w + 8 * n + 2) / real 4" by simp
  then have "mathRound (real w * 0.25 + real n * 2) = \<lfloor>real (w + 8 * n + 2) / real 4\<rfloor>"
    by (simp only: mathRound_def)
  also have "\<dots> = int ((w + 8 * n + 2) div 4)" by (rule floor_divide_of_nat_eq)
  finally show ?thesis .
qed

lemma tokenStarts_dropWhile: "tokenStarts True (dropWhile isSpace s) = tokenStarts True s"
  by (induction s) auto

lemma tokenStarts_append_spaces:
  "\<forall>c\<in>set ys. isSpace c \<Longrightarrow> tokenStarts b (xs @ ys) = tokenStarts b xs"
proof (induction xs arbitrary: b)
  case Nil
  then show ?case by (induction ys arbitrary: b) auto
next
  case (Cons x xs)
  then show ?case by simp
qed

lemma countTokens_trim: "countTokens (trim s) = countTokens s"
proof -
  define a where "a = dropWhile isSpace s"
  have split: "a = rev (dropWhile isSpace (rev a)) @ rev (takeWhile isSpace (rev a))"
    by (metis rev_append rev_rev_ident takeWhile_dropWhile_id)
  have sp: "\<forall>c\<in>set (rev (takeWhile isSpace (rev a))). isSpace c"
    by (auto dest: set_takeWhileD)
  have "tokenStarts True (trim s) = tokenStarts True (rev (dropWhile isSpace (rev a)))"
    by (simp add: trim_def a_def)
  also have "\<dots> = tokenStarts True a"
    using tokenStarts_append_spaces [OF sp, of True "rev (dropWhile isSpace (rev a))"] split
    by simp
  also have "\<dots> = tokenStarts True s" by (simp add: a_def tokenStarts_dropWhile)
  finally show ?thesis by (simp add: countTokens_def)
qed

lemma splitWs_tokens:
  "length (filter (\<lambda>t. t \<noteq> []) (splitWs cur s))
     = tokenStarts (cur = []) s + (if cur = [] then 0 else 1)"
  by (induction cur s rule: splitWs.induct) (auto simp: tokenStarts_dropWhile)

lemma wordCount_countTokens: "wordCount (trim s) = countTokens s"
proof -
  have "wordCount (trim s) = countTokens (trim s)"
    by (simp add: wordCount_def splitWs_tokens countTokens_def)
  then show ?thesis by (simp add: countTokens_trim)
qed

lemma estimateMinutes_eq:
  "estimateMinutes m =
     max 5 (min (int ((countTokens (orEmpty (strInstructions m))
                        + 8 * length (getIngredients m) + 2) div 4)) 180)"
  by (simp only: estimateMinutes_def Let_def wordCount_countTokens mathRound_quarters)

text \<open>
  Claim C2. \<^verbatim>\<open>estimateMinutes\<close> is \<^verbatim>\<open>round(words * 0.25 + n * 2)\<close> clamped to the
  range from 5 to 180, where \<open>words\<close> is the number of maximal runs of characters other
  than white space in the instructions (0 when there are none) and \<open>n\<close> the number of
  extracted ingredients. The result lies between 5 and 180, and it does not decrease when
  neither the word count nor the ingredient count decreases.
\<close>

theorem estimateMinutes_formula:
  "estimateMinutes m =
     max 5 (min (mathRound (real (countTokens (orEmpty (strInstructions m))) * 0.25
                            + real (length (getIngredients m)) * 2)) 180)
   \<and> 5 \<le> estimateMinutes m \<and> estimateMinutes m \<le> 180
   \<and> (countTokens (orEmpty (strInstructions m)) \<le> countTokens (orEmpty (strInstructions m'))
        \<and> length (getIngredients m) \<le> length (getIngredients m')
      \<longrightarrow> estimateMinutes m \<le> estimateMinutes m')"
proof (intro conjI impI)
  show "estimateMinutes m =
     max 5 (min (mathRound (real (countTokens (orEmpty (strInstructions m))) * 0.25
                            + real (length (getIngredients m)) * 2)) 180)"
    by (simp only: estimateMinutes_def Let_def wordCount_countTokens)
  show "5 \<le> estimateMinutes m" by (simp add: estimateMinutes_eq)
  show "estimateMinutes m \<le> 180" by (simp add: estimateMinutes_eq)
next
  assume le: "countTokens (orEmpty (strInstructions m)) \<le> countTokens (orEmpty (strInstructions m'))
        \<and> length (getIngredients m) \<le> length (getIngredients m')"
  define w n w' n' where "w = countTokens (orEmpty (strInstructions m))"
    and "n = length (getIngredients m)"
    and "w' = countTokens (orEmpty (strInstructions m'))"
    and "n' = length (getIngredients m')"
  from le have "w + 8 * n + 2 \<le> w' + 8 * n' + 2" by (simp add: w_def n_def w'_def n'_def)
  then have "(w + 8 * n + 2) div 4 \<le> (w' + 8 * n' + 2) div 4" by (rule div_le_mono)
  then have "int ((w + 8 * n + 2) div 4) \<le> int ((w' + 8 * n' + 2) div 4)" by simp
  then have "max 5 (min (int ((w + 8 * n + 2) div 4)) 180)
      \<le> max 5 (min (int ((w' + 8 * n' + 2) div 4)) 180)" by linarith
  then show "estimateMinutes m \<le> estimateMinutes m'"
    by (simp only: estimateMinutes_eq w_def n_def w'_def n'_def)
qed

text \<open>
  The apple cake has no instructions and two ingredients, the peanut chicken seven words
  and two ingredients.
\<close>

theorem estimateMinutes_formula_witness:
  "countTokens (orEmpty (strInstructions appleCake)) = 0
   \<and> length (getIngredients appleCake) = 2
   \<and> countTokens (orEmpty (strInstructions peanutChicken)) = 7
   \<and> length (getIngredients peanutChicken) = 2
   \<and> estimateMinutes appleCake = 5
   \<and> estimateMinutes peanutChicken = 6
   \<and> estimateMinutes appleCake \<le> estimateMinutes peanutChicken"
proof -
  have a: "countTokens (orEmpty (strInstructions appleCake)) = 0" by code_simp
  have b: "length (getIngredients appleCake) = 2" by code_simp
  have c: "countTokens (orEmpty (strInstructions peanutChicken)) = 7" by code_simp
  have d: "length (getIngredients peanutChicken) = 2" by code_simp
  note inst = estimateMinutes_formula [of appleCake peanutChicken]
  have r4: "mathRound 4 = 4" by (simp add: mathRound_def)
  have r5: "mathRound (7 * 0.25 + 4) = 6" by (simp add: mathRound_def)
  from inst have "estimateMinutes appleCake =
     max 5 (min (mathRound (real (countTokens (orEmpty (strInstructions appleCake))) * 0.25
                            + real (length (getIngredients appleCake)) * 2)) 180)"
    by (elim conjE)
  then have e: "estimateMinutes appleCake = 5" by (simp add: a b r4)
  from estimateMinutes_formula [of peanutChicken appleCake]
  have "estimateMinutes peanutChicken =
     max 5 (min (mathRound (real (countTokens (orEmpty (strInstructions peanutChicken))) * 0.25
                            + real (length (getIngredients peanutChicken)) * 2)) 180)"
    by (elim conjE)
  then have f: "estimateMinutes peanutChicken = 6" using r5 by (simp add: c d)
  from inst have "countTokens (orEmpty (strInstructions appleCake))
          \<le> countTokens (orEmpty (strInstructions peanutChicken))
        \<and> length (getIngredients appleCake) \<le> length (getIngredients peanutChicken)
      \<longrightarrow> estimateMinutes appleCake \<le> estimateMinutes peanutChicken"
    by (elim conjE)
  then have g: "estimateMinutes appleCake \<le> estimateMinutes peanutChicken"
    by (simp add: a b c d)
  from a b c d e f g show ?thesis by (intro conjI)
qed

section \<open>The search\<close>

lemma foldl_applyEvent_FilterRequest: "foldl applyEvent s (map FilterRequest qs) = s"
  by (induction qs) auto

lemma foldl_applyEvent_DetailsRequest: "foldl applyEvent s (map DetailsRequest qs) = s"
  by (induction qs) auto

lemma filterRequests_append: "filterRequests (xs @ ys) = filterRequests xs @ filterRequests ys"
  by (induction xs rule: filterRequests.induct) auto

lemma filterRequests_FilterRequest: "filterRequests (map FilterRequest qs) = qs"
  by (induction qs) auto

lemma filterRequests_DetailsRequest: "filterRequests (map DetailsRequest qs) = []"
  by (induction qs) auto

lemma promiseAll_map_Inr: "promiseAll (map Inr vs) = Inr vs"
  by (induction vs) auto

lemma promiseAll_Inr_D: "promiseAll ps = Inr vs \<Longrightarrow> ps = map Inr vs"
  by (induction ps arbitrary: vs) (auto split: sum.splits)

lemma promiseAll_Inr_length: "promiseAll ps = Inr vs \<Longrightarrow> length vs = length ps"
  by (drule promiseAll_Inr_D) simp

lemma set_nonNull: "set (nonNull ds) = {m. Some m \<in> set ds}"
  by (induction ds rule: nonNull.induct) auto

text \<open>The five ways in which a search ends.\<close>

lemma onSearch_no_ingredients:
  assumes "parsedIngredients (ingredientsInput inp) = []"
  shows "onSearch net inp s =
     s\<lparr>loading := False, error := Some ''Enter at least one ingredient.'',
       meals := [], expanded := Map.empty\<rparr>"
  using assms by (simp add: onSearch_def onSearch_events_def tryBody_def)

lemma onSearch_discovery_fails:
  assumes "parsedIngredients (ingredientsInput inp) \<noteq> []"
    and "promiseAll (map (filterByIngredient net) (parsedIngredients (ingredientsInput inp))) = Inl err"
  shows "onSearch net inp s =
     s\<lparr>loading := False, error := Some (errorMessage err), meals := [], expanded := Map.empty\<rparr>"
  using assms
  by (simp add: onSearch_def onSearch_events_def tryBody_def foldl_applyEvent_FilterRequest)

lemma onSearch_no_candidates:
  assumes "parsedIngredients (ingredientsInput inp) \<noteq> []"
    and "promiseAll (map (filterByIngredient net) (parsedIngredients (ingredientsInput inp))) = Inr lsts"
    and "candidateIds lsts = []"
  shows "onSearch net inp s =
     s\<lparr>loading := False, error := None, meals := [], expanded := Map.empty\<rparr>"
  using assms
  by (simp add: onSearch_def onSearch_events_def tryBody_def foldl_applyEvent_FilterRequest)

lemma onSearch_lookup_fails:
  assumes "parsedIngredients (ingredientsInput inp) \<noteq> []"
    and "promiseAll (map (filterByIngredient net) (parsedIngredients (ingredientsInput inp))) = Inr lsts"
    and "candidateIds lsts \<noteq> []"
    and "promiseAll (map (detailsById net) (take 24 (candidateIds lsts))) = Inl err"
  shows "onSearch net inp s =
     s\<lparr>loading := False, error := Some (errorMessage err), meals := [], expanded := Map.empty\<rparr>"
  using assms
  by (simp add: onSearch_def onSearch_events_def tryBody_def foldl_applyEvent_FilterRequest
      foldl_applyEvent_DetailsRequest)

lemma onSearch_success:
  assumes "parsedIngredients (ingredientsInput inp) \<noteq> []"
    and "promiseAll (map (filterByIngredient net) (parsedIngredients (ingredientsInput inp))) = Inr lsts"
    and "promiseAll (map (detailsById net) (take 24 (candidateIds lsts))) = Inr ds"
  shows "onSearch net inp s =
     s\<lparr>loading := False, error := None, meals := filter (passesFilters inp) (nonNull ds),
       expanded := Map.empty\<rparr>"
proof (cases "candidateIds lsts = []")
  case True
  with assms(3) have "ds = []" by simp
  with True assms show ?thesis
    by (simp add: onSearch_def onSearch_events_def tryBody_def foldl_applyEvent_FilterRequest)
next
  case False
  with assms show ?thesis
    by (simp add: onSearch_def onSearch_events_def tryBody_def foldl_applyEvent_FilterRequest
        foldl_applyEvent_DetailsRequest)
qed

lemma filterRequests_onSearch:
  "filterRequests (onSearch_events net inp) = parsedIngredients (ingredientsInput inp)"
  by (simp add: onSearch_events_def tryBody_def Let_def filterRequests_append
      filterRequests_FilterRequest filterRequests_DetailsRequest
      split: sum.splits option.splits)

lemma onSearch_error_clears:
  "error (onSearch net inp s) \<noteq> None \<Longrightarrow>
   meals (onSearch net inp s) = [] \<and> expanded (onSearch net inp s) = Map.empty"
  by (simp add: onSearch_def onSearch_events_def tryBody_def Let_def
      foldl_applyEvent_FilterRequest foldl_applyEvent_DetailsRequest
      split: sum.splits option.splits if_splits)

lemma parsed_chickenSearch: "parsedIngredients (ingredientsInput chickenSearch) = [''chicken'']"
  by code_simp

lemma parsed_doubleSearch:
  "parsedIngredients (ingredientsInput doubleSearch) = [''chicken'', ''chicken'']"
  by code_simp

lemma parsed_blankSearch: "parsedIngredients (ingredientsInput blankSearch) = []"
  by code_simp

lemma chicken_candidates:
  "candidateIds [[chickenSummary, cakeSummary, ghostSummary]] = [''52001'', ''52002'', ''52003'']"
  by code_simp

lemma chicken_discovery:
  "fetchFilter net = chickenResults \<Longrightarrow>
   promiseAll (map (filterByIngredient net) [''chicken''])
     = Inr [[chickenSummary, cakeSummary, ghostSummary]]"
  by (simp add: filterByIngredient_def chickenResults_def)

lemma passes_chickenSearch:
  "passesFilters chickenSearch peanutChicken \<and> \<not> passesFilters chickenSearch appleCake"
  by code_simp

text \<open>
  Claim C3, amended. For every search that passes validation, whose ingredient queries all
  succeed and none of whose detail lookups rejects, the results are the fetched details of
  the first 24 ids of the intersection that are not absent and satisfy the time, mood, diet
  and exclusion predicates, in lookup order: a meal is in the results exactly when the
  lookup of one of these ids returns it and the four predicates hold of it. Absent details
  are dropped and the error stays unset. The candidate ids are the ids that occur in the
  result list of every ingredient query, each once.
\<close>

theorem onSearch_result_set:
  assumes "parsedIngredients (ingredientsInput inp) \<noteq> []"
    and "promiseAll (map (filterByIngredient net) (parsedIngredients (ingredientsInput inp))) = Inr lsts"
    and "promiseAll (map (detailsById net) (take 24 (candidateIds lsts))) = Inr ds"
  shows "meals (onSearch net inp s) = filter (passesFilters inp) (nonNull ds)
     \<and> error (onSearch net inp s) = None
     \<and> set (candidateIds lsts) = (\<Inter>l\<in>set lsts. idMeal ` set l)
     \<and> distinct (candidateIds lsts)
     \<and> (m \<in> set (meals (onSearch net inp s)) \<longleftrightarrow>
          (\<exists>ident\<in>set (take 24 (candidateIds lsts)). detailsById net ident = Inr (Some m))
          \<and> matchesTime m (time inp) \<and> matchesMood m (mood inp) \<and> matchesDiet m (diet inp)
          \<and> excludeIngredients m (parsedExcludes (excludeInput inp)))"
proof -
  note fin = onSearch_success [OF assms, of s]
  have eq: "map (detailsById net) (take 24 (candidateIds lsts)) = map Inr ds"
    using assms(3) by (rule promiseAll_Inr_D)
  have "Some m \<in> set ds \<longleftrightarrow> Inr (Some m) \<in> set (map (detailsById net) (take 24 (candidateIds lsts)))"
    unfolding eq by auto
  also have "\<dots> \<longleftrightarrow> (\<exists>ident\<in>set (take 24 (candidateIds lsts)). detailsById net ident = Inr (Some m))"
    by (auto simp: image_iff) (metis)
  finally have mem: "Some m \<in> set ds \<longleftrightarrow>
      (\<exists>ident\<in>set (take 24 (candidateIds lsts)). detailsById net ident = Inr (Some m))" .
  have a: "meals (onSearch net inp s) = filter (passesFilters inp) (nonNull ds)"
    by (simp add: fin)
  have b: "error (onSearch net inp s) = None" by (simp add: fin)
  have c: "m \<in> set (meals (onSearch net inp s)) \<longleftrightarrow>
          (\<exists>ident\<in>set (take 24 (candidateIds lsts)). detailsById net ident = Inr (Some m))
          \<and> matchesTime m (time inp) \<and> matchesMood m (mood inp) \<and> matchesDiet m (diet inp)
          \<and> excludeIngredients m (parsedExcludes (excludeInput inp))"
    unfolding a by (simp add: set_nonNull mem passesFilters_def)
  have "length lsts = length (map (filterByIngredient net) (parsedIngredients (ingredientsInput inp)))"
    using assms(2) by (rule promiseAll_Inr_length)
  with assms(1) have "lsts \<noteq> []" by auto
  then have d: "set (candidateIds lsts) = (\<Inter>l\<in>set lsts. idMeal ` set l)"
    by (rule set_candidateIds)
  have e: "distinct (candidateIds lsts)" by (rule distinct_candidateIds)
  from a b d e c show ?thesis by (intro conjI)
qed

lemma chicken_selected:
  "take 24 (candidateIds [[chickenSummary, cakeSummary, ghostSummary]])
     = [''52001'', ''52002'', ''52003'']"
  by (simp add: chicken_candidates)

lemma demoNet_lookups:
  "promiseAll (map (detailsById demoNet) [''52001'', ''52002'', ''52003''])
     = Inr [Some peanutChicken, Some appleCake, None]"
  by (simp add: detailsById_def demoNet_def)

lemma flakyNet_lookups:
  "promiseAll (map (detailsById flakyNet) [''52001'', ''52002'', ''52003'']) = Inl ''Failed to fetch''"
  by (simp add: detailsById_def flakyNet_def)

text \<open>
  A search for chicken under the gluten-free diet: three candidates, of which the first
  passes, the second lists wheat flour and the third has no details.
\<close>

theorem onSearch_result_set_witness:
  "parsedIngredients (ingredientsInput chickenSearch) \<noteq> []
   \<and> promiseAll (map (filterByIngredient demoNet) (parsedIngredients (ingredientsInput chickenSearch)))
       = Inr [[chickenSummary, cakeSummary, ghostSummary]]
   \<and> promiseAll (map (detailsById demoNet)
         (take 24 (candidateIds [[chickenSummary, cakeSummary, ghostSummary]])))
       = Inr [Some peanutChicken, Some appleCake, None]
   \<and> meals (onSearch demoNet chickenSearch shownState) = [peanutChicken]
   \<and> error (onSearch demoNet chickenSearch shownState) = None"
proof -
  have h1: "parsedIngredients (ingredientsInput chickenSearch) \<noteq> []"
    by (simp add: parsed_chickenSearch)
  have h2: "promiseAll (map (filterByIngredient demoNet) (parsedIngredients (ingredientsInput chickenSearch)))
       = Inr [[chickenSummary, cakeSummary, ghostSummary]]"
    unfolding parsed_chickenSearch by (rule chicken_discovery) (simp add: demoNet_def)
  have h3: "promiseAll (map (detailsById demoNet)
         (take 24 (candidateIds [[chickenSummary, cakeSummary, ghostSummary]])))
       = Inr [Some peanutChicken, Some appleCake, None]"
    unfolding chicken_selected by (rule demoNet_lookups)
  note inst = onSearch_result_set [OF h1 h2 h3, of shownState peanutChicken]
  have "filter (passesFilters chickenSearch) (nonNull [Some peanutChicken, Some appleCake, None])
      = [peanutChicken]"
    by (simp add: passes_chickenSearch)
  with inst have a: "meals (onSearch demoNet chickenSearch shownState) = [peanutChicken]"
    by simp
  from inst have b: "error (onSearch demoNet chickenSearch shownState) = None"
    by (elim conjE)
  from h1 h2 h3 a b show ?thesis by (intro conjI)
qed

text \<open>
  Claim C3 as it is written covers every search that passes validation and whose
  ingredient queries succeed. A detail lookup whose \<^verbatim>\<open>fetch\<close> rejects is neither a
  success nor an absent result: \<^verbatim>\<open>Promise.all\<close> rejects, the \<^verbatim>\<open>catch\<close> branch
  sets the error and the result list stays empty. Here the lookup of the first candidate
  returns the peanut chicken, which passes all four predicates, the lookup of the second
  one rejects, and the peanut chicken is not in the results.
\<close>

theorem onSearch_lookup_rejection_counterexample:
  "parsedIngredients (ingredientsInput chickenSearch) \<noteq> []
   \<and> promiseAll (map (filterByIngredient flakyNet) (parsedIngredients (ingredientsInput chickenSearch)))
       = Inr [[chickenSummary, cakeSummary, ghostSummary]]
   \<and> ''52001'' \<in> set (take 24 (candidateIds [[chickenSummary, cakeSummary, ghostSummary]]))
   \<and> detailsById flakyNet ''52001'' = Inr (Some peanutChicken)
   \<and> matchesTime peanutChicken (time chickenSearch)
   \<and> matchesMood peanutChicken (mood chickenSearch)
   \<and> matchesDiet peanutChicken (diet chickenSearch)
   \<and> excludeIngredients peanutChicken (parsedExcludes (excludeInput chickenSearch))
   \<and> peanutChicken \<notin> set (meals (onSearch flakyNet chickenSearch shownState))
   \<and> error (onSearch flakyNet chickenSearch shownState) = Some ''Failed to fetch''"
proof -
  have h1: "parsedIngredients (ingredientsInput chickenSearch) \<noteq> []"
    by (simp add: parsed_chickenSearch)
  have h2: "promiseAll (map (filterByIngredient flakyNet) (parsedIngredients (ingredientsInput chickenSearch)))
       = Inr [[chickenSummary, cakeSummary, ghostSummary]]"
    unfolding parsed_chickenSearch by (rule chicken_discovery) (simp add: flakyNet_def)
  have h3: "candidateIds [[chickenSummary, cakeSummary, ghostSummary]] \<noteq> []"
    by (simp add: chicken_candidates)
  have h4: "promiseAll (map (detailsById flakyNet)
         (take 24 (candidateIds [[chickenSummary, cakeSummary, ghostSummary]])))
       = Inl ''Failed to fetch''"
    unfolding chicken_selected by (rule flakyNet_lookups)
  note fin = onSearch_lookup_fails [OF h1 h2 h3 h4, of shownState]
  have c: "''52001'' \<in> set (take 24 (candidateIds [[chickenSummary, cakeSummary, ghostSummary]]))"
    by (simp add: chicken_selected)
  have d: "detailsById flakyNet ''52001'' = Inr (Some peanutChicken)"
    by (simp add: detailsById_def flakyNet_def)
  have "passesFilters chickenSearch peanutChicken" by (simp add: passes_chickenSearch)
  then have p: "matchesTime peanutChicken (time chickenSearch)
      \<and> matchesMood peanutChicken (mood chickenSearch)
      \<and> matchesDiet peanutChicken (diet chickenSearch)
      \<and> excludeIngredients peanutChicken (parsedExcludes (excludeInput chickenSearch))"
    by (simp only: passesFilters_def)
  have e: "peanutChicken \<notin> set (meals (onSearch flakyNet chickenSearch shownState))"
    by (simp add: fin)
  have f: "error (onSearch flakyNet chickenSearch shownState) = Some ''Failed to fetch''"
    by (simp add: fin errorMessage_def)
  from h1 h2 c d p e f show ?thesis by (intro conjI) (elim conjE, assumption)+
qed

text \<open>
  Claim C4 as it is written has one query per distinct parsed ingredient. The program
  maps \<^verbatim>\<open>filterByIngredient\<close> over the parsed list, which keeps repeated entries: the
  input \<^verbatim>\<open>chicken, Chicken\<close> sends the query for chicken twice.
\<close>

theorem filter_requests_duplicate_counterexample:
  "filterRequests (onSearch_events demoNet doubleSearch) = [''chicken'', ''chicken'']
   \<and> \<not> distinct (filterRequests (onSearch_events demoNet doubleSearch))"
  by (simp add: filterRequests_onSearch parsed_doubleSearch)

text \<open>
  Claim C4, amended. For every submitted ingredient input, the orchestrator sends exactly
  one \<^verbatim>\<open>filterByIngredient\<close> query per parsed entry, in input order, the parsed entries
  being the comma-separated pieces trimmed, lowercased and with the blank ones removed. An
  ingredient is queried as many times as it occurs among the parsed entries.
\<close>

theorem filter_requests_per_entry:
  "filterRequests (onSearch_events net inp) = parsedIngredients (ingredientsInput inp)
   \<and> parsedIngredients (ingredientsInput inp)
       = filter (\<lambda>s. s \<noteq> [])
           (map (\<lambda>s. toLowerCase (trim s)) (split (ingredientsInput inp) CHR '',''))
   \<and> count_list (filterRequests (onSearch_events net inp)) q
       = count_list (parsedIngredients (ingredientsInput inp)) q"
  by (simp add: filterRequests_onSearch parsedIngredients_def)

text \<open>
  One query for the input \<^verbatim>\<open>Chicken\<close>, none for an input of blanks.
\<close>

theorem filter_requests_per_entry_witness:
  "filterRequests (onSearch_events demoNet chickenSearch) = [''chicken'']
   \<and> filterRequests (onSearch_events downNet blankSearch) = []
   \<and> count_list (filterRequests (onSearch_events demoNet chickenSearch)) ''chicken'' = 1"
proof -
  note inst = filter_requests_per_entry [of demoNet chickenSearch "''chicken''"]
  from inst have a: "filterRequests (onSearch_events demoNet chickenSearch) = [''chicken'']"
    by (simp add: parsed_chickenSearch)
  from filter_requests_per_entry [of downNet blankSearch "''chicken''"]
  have b: "filterRequests (onSearch_events downNet blankSearch) = []"
    by (simp add: parsed_blankSearch)
  from inst have "count_list (filterRequests (onSearch_events demoNet chickenSearch)) ''chicken''
      = count_list (parsedIngredients (ingredientsInput chickenSearch)) ''chicken''"
    by (elim conjE)
  then have c: "count_list (filterRequests (onSearch_events demoNet chickenSearch)) ''chicken'' = 1"
    unfolding parsed_chickenSearch by simp
  from a b c show ?thesis by (intro conjI)
qed

text \<open>
  Claim C10. A submit first clears the result list and the expanded cards, before any
  request is sent, and the error branch does not put them back: whenever a search ends
  with an error, the result list and the expanded cards are empty. An empty parsed
  ingredient list ends with the validation message and sends no query; a failing
  ingredient query ends with the message of its error.
\<close>

theorem onSearch_error_leaves_no_results:
  "take 4 (onSearch_events net inp)
     = [SetLoading True, SetError None, SetMeals [], SetExpanded Map.empty]
   \<and> \<not> list_ex isRequest (take 4 (onSearch_events net inp))
   \<and> (error (onSearch net inp s) \<noteq> None \<longrightarrow>
        meals (onSearch net inp s) = [] \<and> expanded (onSearch net inp s) = Map.empty)
   \<and> (parsedIngredients (ingredientsInput inp) = [] \<longrightarrow>
        error (onSearch net inp s) = Some ''Enter at least one ingredient.''
        \<and> filterRequests (onSearch_events net inp) = [])
   \<and> (parsedIngredients (ingredientsInput inp) \<noteq> []
        \<and> promiseAll (map (filterByIngredient net) (parsedIngredients (ingredientsInput inp))) = Inl err
      \<longrightarrow> error (onSearch net inp s) = Some (errorMessage err))"
proof (intro conjI impI)
  show t: "take 4 (onSearch_events net inp)
     = [SetLoading True, SetError None, SetMeals [], SetExpanded Map.empty]"
    by (simp add: onSearch_events_def)
  show "\<not> list_ex isRequest (take 4 (onSearch_events net inp))"
    unfolding t by simp
next
  assume "error (onSearch net inp s) \<noteq> None"
  then have "meals (onSearch net inp s) = [] \<and> expanded (onSearch net inp s) = Map.empty"
    by (rule onSearch_error_clears)
  then show "meals (onSearch net inp s) = []" and "expanded (onSearch net inp s) = Map.empty"
    by simp_all
next
  assume e: "parsedIngredients (ingredientsInput inp) = []"
  show "error (onSearch net inp s) = Some ''Enter at least one ingredient.''"
    by (simp add: onSearch_no_ingredients [OF e])
  show "filterRequests (onSearch_events net inp) = []"
    by (simp add: filterRequests_onSearch e)
next
  assume "parsedIngredients (ingredientsInput inp) \<noteq> []
        \<and> promiseAll (map (filterByIngredient net) (parsedIngredients (ingredientsInput inp))) = Inl err"
  then have ne: "parsedIngredients (ingredientsInput inp) \<noteq> []"
    and fl: "promiseAll (map (filterByIngredient net) (parsedIngredients (ingredientsInput inp))) = Inl err"
    by simp_all
  show "error (onSearch net inp s) = Some (errorMessage err)"
    by (simp add: onSearch_discovery_fails [OF ne fl])
qed

text \<open>
  The apple cake is on screen; a search with a blank input, and a search while the
  network is down, both end with an error and an empty result list.
\<close>

theorem onSearch_error_leaves_no_results_witness:
  "meals shownState = [appleCake]
   \<and> parsedIngredients (ingredientsInput blankSearch) = []
   \<and> error (onSearch demoNet blankSearch shownState) = Some ''Enter at least one ingredient.''
   \<and> meals (onSearch demoNet blankSearch shownState) = []
   \<and> parsedIngredients (ingredientsInput chickenSearch) \<noteq> []
   \<and> promiseAll (map (filterByIngredient downNet) (parsedIngredients (ingredientsInput chickenSearch)))
       = Inl ''Failed to fetch''
   \<and> error (onSearch downNet chickenSearch shownState) = Some ''Failed to fetch''
   \<and> meals (onSearch downNet chickenSearch shownState) = []
   \<and> expanded (onSearch downNet chickenSearch shownState) = Map.empty"
proof -
  have a: "meals shownState = [appleCake]" by (simp add: shownState_def)
  note blank = onSearch_error_leaves_no_results [of demoNet blankSearch shownState "[]"]
  from blank have b: "error (onSearch demoNet blankSearch shownState)
      = Some ''Enter at least one ingredient.''"
    using parsed_blankSearch by (elim conjE) simp
  from blank have "error (onSearch demoNet blankSearch shownState) \<noteq> None \<longrightarrow>
        meals (onSearch demoNet blankSearch shownState) = []
        \<and> expanded (onSearch demoNet blankSearch shownState) = Map.empty"
    by (elim conjE)
  with b have c: "meals (onSearch demoNet blankSearch shownState) = []" by simp
  have ne: "parsedIngredients (ingredientsInput chickenSearch) \<noteq> []"
    by (simp add: parsed_chickenSearch)
  have fl: "promiseAll (map (filterByIngredient downNet) (parsedIngredients (ingredientsInput chickenSearch)))
       = Inl ''Failed to fetch''"
    by (simp add: parsed_chickenSearch filterByIngredient_def downNet_def)
  note down = onSearch_error_leaves_no_results
    [of downNet chickenSearch shownState "''Failed to fetch''"]
  from down ne fl have d: "error (onSearch downNet chickenSearch shownState) = Some ''Failed to fetch''"
    by (elim conjE) (simp add: errorMessage_def)
  from down have "error (onSearch downNet chickenSearch shownState) \<noteq> None \<longrightarrow>
        meals (onSearch downNet chickenSearch shownState) = []
        \<and> expanded (onSearch downNet chickenSearch shownState) = Map.empty"
    by (elim conjE)
  with d have e: "meals (onSearch downNet chickenSearch shownState) = []
        \<and> expanded (onSearch downNet chickenSearch shownState) = Map.empty"
    by simp
  from a parsed_blankSearch b c ne fl d e show ?thesis by (intro conjI) simp_all
qed

end
